theory Spec2Isabelle
  imports Complex_Main
begin

section \<open>Python values shared by all bucket implementations\<close>

text \<open>
  The repository holds several independent implementations of the token bucket and of
  the leaky bucket. Three of them are embedded here, each from its own source file:
  \<^item> \<^verbatim>\<open>src/rate_limiting/token_bucket.py\<close> and \<^verbatim>\<open>src/rate_limiting/leaky_bucket.py\<close>
    (records \<open>TokenBucket\<close>, \<open>TokenBucketRateLimiter\<close>, \<open>LeakyBucket\<close>);
  \<^item> \<^verbatim>\<open>src/API BASED PRODUCTS/Question 3/token_bucket_python.py\<close> and
    \<^verbatim>\<open>leaky_bucket_python.py\<close> beside it (prefix \<open>Q3_\<close>), the multi-client variant;
  \<^item> \<^verbatim>\<open>src/API Project/question3_rate_limiting/leaky_bucket.py\<close> (prefix \<open>AP_\<close>).

  Conventions of the embedding:
  \<^item> a Python \<open>int\<close> is an \<open>int\<close>, a Python \<open>float\<close> is a \<open>real\<close> (exact arithmetic, no
    rounding), following the type hints of the source; the field \<open>tokens\<close> starts as
    the integer capacity and becomes a float at the first refill, so it is a \<open>real\<close>;
  \<^item> every call of \<^verbatim>\<open>time.time()\<close> is a parameter of the function that makes it, in
    program order; nothing is assumed about the readings (the clock may stand still or
    run backwards); a reading of a call that a path does not make is ignored;
  \<^item> a method that mutates its object returns the object after the call, paired with
    the returned value; a raised exception is a value \<open>Inl e\<close>;
  \<^item> the locks are not modelled: every function is one uninterrupted call;
  \<^item> a function is named \<open>Class_method\<close>; a parameter whose Python name is also the
    name of a field is renamed (\<open>tokens\<close> to \<open>n\<close>, \<open>client_id\<close> to \<open>cid\<close>), and fields are
    written with their record's name, as in \<open>TokenBucket.tokens b\<close> for \<open>b.tokens\<close>.
\<close>

datatype error = ValueError string | ZeroDivisionError | KeyError string

text \<open>\<^verbatim>\<open>int(x)\<close> on a float truncates towards zero.\<close>

definition py_int :: "real \<Rightarrow> int" where
  "py_int x = (if 0 \<le> x then \<lfloor>x\<rfloor> else \<lceil>x\<rceil>)"

text \<open>\<^verbatim>\<open>a / b\<close> raises \<open>ZeroDivisionError\<close> when \<open>b\<close> is zero (int or float).\<close>

definition py_div :: "real \<Rightarrow> real \<Rightarrow> error + real" where
  "py_div a b = (if b = 0 then Inl ZeroDivisionError else Inr (a / b))"

text \<open>
  \<^verbatim>\<open>for _ in range(k): queue.popleft()\<close>. Every caller runs it with
  \<open>k = min(n, len(queue))\<close>, so \<open>popleft\<close> never meets an empty deque.
\<close>

fun popleft_times :: "nat \<Rightarrow> 'a list \<Rightarrow> 'a list" where
  "popleft_times 0 q = q"
| "popleft_times (Suc k) q = popleft_times k (tl q)"


section \<open>\<^verbatim>\<open>src/rate_limiting/token_bucket.py\<close>\<close>

record TokenBucket =
  capacity :: int
  refill_rate :: real
  tokens :: real
  last_refill :: real

text \<open>\<open>TokenBucket.__init__\<close>; \<open>now\<close> is the reading stored in \<open>last_refill\<close>.\<close>

definition TokenBucket_init :: "int \<Rightarrow> real \<Rightarrow> real \<Rightarrow> error + TokenBucket" where
  "TokenBucket_init cap rate now =
     (if cap \<le> 0 then Inl (ValueError ''Capacity must be positive'')
      else if rate \<le> 0 then Inl (ValueError ''Refill rate must be positive'')
      else Inr \<lparr>TokenBucket.capacity = cap, refill_rate = rate,
                tokens = real_of_int cap, last_refill = now\<rparr>)"

text \<open>\<open>TokenBucket._refill_tokens\<close>\<close>

definition TokenBucket_refill_tokens :: "TokenBucket \<Rightarrow> real \<Rightarrow> TokenBucket" where
  "TokenBucket_refill_tokens b current_time =
     (let elapsed = current_time - TokenBucket.last_refill b;
          tokens_to_add = elapsed * TokenBucket.refill_rate b
      in if tokens_to_add > 0
         then b\<lparr>TokenBucket.tokens :=
                   min (real_of_int (TokenBucket.capacity b)) (TokenBucket.tokens b + tokens_to_add),
                 TokenBucket.last_refill := current_time\<rparr>
         else b)"

text \<open>\<open>TokenBucket.consume(tokens)\<close>; the parameter \<open>tokens\<close> is called \<open>n\<close> here.\<close>

definition TokenBucket_consume :: "TokenBucket \<Rightarrow> real \<Rightarrow> int \<Rightarrow> bool \<times> TokenBucket" where
  "TokenBucket_consume b now n =
     (let b1 = TokenBucket_refill_tokens b now
      in if TokenBucket.tokens b1 \<ge> real_of_int n
         then (True, b1\<lparr>TokenBucket.tokens := TokenBucket.tokens b1 - real_of_int n\<rparr>)
         else (False, b1))"

definition TokenBucket_get_available_tokens :: "TokenBucket \<Rightarrow> real \<Rightarrow> real \<times> TokenBucket" where
  "TokenBucket_get_available_tokens b now =
     (let b1 = TokenBucket_refill_tokens b now in (TokenBucket.tokens b1, b1))"

definition TokenBucket_reset :: "TokenBucket \<Rightarrow> real \<Rightarrow> TokenBucket" where
  "TokenBucket_reset b now =
     b\<lparr>TokenBucket.tokens := real_of_int (TokenBucket.capacity b), TokenBucket.last_refill := now\<rparr>"

record TokenBucketRateLimiter =
  bucket :: TokenBucket

definition TokenBucketRateLimiter_init ::
  "int \<Rightarrow> real \<Rightarrow> real \<Rightarrow> error + TokenBucketRateLimiter" where
  "TokenBucketRateLimiter_init cap rate now =
     (case TokenBucket_init cap rate now of
        Inl e \<Rightarrow> Inl e
      | Inr b \<Rightarrow> Inr \<lparr>TokenBucketRateLimiter.bucket = b\<rparr>)"

text \<open>
  \<open>TokenBucketRateLimiter.allow_request\<close>: \<open>now1\<close> is read by \<open>consume\<close>, \<open>now2\<close> by
  \<open>get_available_tokens\<close> on the denial path.
\<close>

definition TokenBucketRateLimiter_allow_request ::
  "TokenBucketRateLimiter \<Rightarrow> real \<Rightarrow> real
     \<Rightarrow> (error + bool \<times> real option) \<times> TokenBucketRateLimiter" where
  "TokenBucketRateLimiter_allow_request limiter now1 now2 =
     (case TokenBucket_consume (TokenBucketRateLimiter.bucket limiter) now1 1 of
        (True, b1) \<Rightarrow> (Inr (True, None), limiter\<lparr>TokenBucketRateLimiter.bucket := b1\<rparr>)
      | (False, b1) \<Rightarrow>
          (case TokenBucket_get_available_tokens b1 now2 of
             (available, b2) \<Rightarrow>
               (case py_div (1 - available) (TokenBucket.refill_rate b2) of
                  Inl e \<Rightarrow> (Inl e, limiter\<lparr>TokenBucketRateLimiter.bucket := b2\<rparr>)
                | Inr wait_time \<Rightarrow>
                    (Inr (False, Some (max 0 wait_time)),
                     limiter\<lparr>TokenBucketRateLimiter.bucket := b2\<rparr>))))"


section \<open>\<^verbatim>\<open>src/rate_limiting/leaky_bucket.py\<close>\<close>

text \<open>The deque \<open>bucket\<close> holds the admission timestamps, oldest first.\<close>

record LeakyBucket =
  capacity :: int
  leak_rate :: real
  bucket :: "real list"
  last_leak :: real

definition LeakyBucket_init :: "int \<Rightarrow> real \<Rightarrow> real \<Rightarrow> error + LeakyBucket" where
  "LeakyBucket_init cap rate now =
     (if cap \<le> 0 then Inl (ValueError ''Capacity must be positive'')
      else if rate \<le> 0 then Inl (ValueError ''Leak rate must be positive'')
      else Inr \<lparr>LeakyBucket.capacity = cap, leak_rate = rate, bucket = [], last_leak = now\<rparr>)"

text \<open>\<open>LeakyBucket._leak_requests\<close>\<close>

definition LeakyBucket_leak_requests :: "LeakyBucket \<Rightarrow> real \<Rightarrow> LeakyBucket" where
  "LeakyBucket_leak_requests b current_time =
     (let elapsed = current_time - LeakyBucket.last_leak b;
          requests_to_process = py_int (elapsed * LeakyBucket.leak_rate b)
      in if requests_to_process > 0
         then b\<lparr>LeakyBucket.bucket :=
                   popleft_times
                     (nat (min requests_to_process (int (length (LeakyBucket.bucket b)))))
                     (LeakyBucket.bucket b),
                 LeakyBucket.last_leak := current_time\<rparr>
         else b)"

text \<open>
  \<open>LeakyBucket.add_request\<close>: \<open>now1\<close> is read by \<open>_leak_requests\<close>, \<open>now2\<close> is the
  timestamp appended on admission.
\<close>

definition LeakyBucket_add_request :: "LeakyBucket \<Rightarrow> real \<Rightarrow> real \<Rightarrow> bool \<times> LeakyBucket" where
  "LeakyBucket_add_request b now1 now2 =
     (let b1 = LeakyBucket_leak_requests b now1
      in if int (length (LeakyBucket.bucket b1)) < LeakyBucket.capacity b1
         then (True, b1\<lparr>LeakyBucket.bucket := LeakyBucket.bucket b1 @ [now2]\<rparr>)
         else (False, b1))"

definition LeakyBucket_get_queue_size :: "LeakyBucket \<Rightarrow> real \<Rightarrow> int \<times> LeakyBucket" where
  "LeakyBucket_get_queue_size b now =
     (let b1 = LeakyBucket_leak_requests b now in (int (length (LeakyBucket.bucket b1)), b1))"

definition LeakyBucket_get_wait_time :: "LeakyBucket \<Rightarrow> real \<Rightarrow> (error + real) \<times> LeakyBucket" where
  "LeakyBucket_get_wait_time b now =
     (let b1 = LeakyBucket_leak_requests b now
      in if length (LeakyBucket.bucket b1) = 0 then (Inr 0, b1)
         else (py_div (real (length (LeakyBucket.bucket b1))) (LeakyBucket.leak_rate b1), b1))"

definition LeakyBucket_reset :: "LeakyBucket \<Rightarrow> real \<Rightarrow> LeakyBucket" where
  "LeakyBucket_reset b now = b\<lparr>LeakyBucket.bucket := [], LeakyBucket.last_leak := now\<rparr>"


section \<open>Sequences of public operations\<close>

text \<open>
  The public operations of the two buckets of \<^verbatim>\<open>src/rate_limiting\<close>, each with the clock
  readings it takes, and the list of states a bucket goes through under a sequence of
  them: the state before the first operation and the state after each one.
\<close>

datatype TokenBucket_op = Consume real int | GetAvailableTokens real | Reset real

fun TokenBucket_apply :: "TokenBucket \<Rightarrow> TokenBucket_op \<Rightarrow> TokenBucket" where
  "TokenBucket_apply b (Consume now n) = snd (TokenBucket_consume b now n)"
| "TokenBucket_apply b (GetAvailableTokens now) = snd (TokenBucket_get_available_tokens b now)"
| "TokenBucket_apply b (Reset now) = TokenBucket_reset b now"

fun TokenBucket_states :: "TokenBucket \<Rightarrow> TokenBucket_op list \<Rightarrow> TokenBucket list" where
  "TokenBucket_states b [] = [b]"
| "TokenBucket_states b (x # xs) = b # TokenBucket_states (TokenBucket_apply b x) xs"

fun positive_cost :: "TokenBucket_op \<Rightarrow> bool" where
  "positive_cost (Consume now n) = (0 < n)"
| "positive_cost (GetAvailableTokens now) = True"
| "positive_cost (Reset now) = True"

datatype LeakyBucket_op =
  AddRequest real real | GetQueueSize real | GetWaitTime real | ResetQueue real

fun LeakyBucket_apply :: "LeakyBucket \<Rightarrow> LeakyBucket_op \<Rightarrow> LeakyBucket" where
  "LeakyBucket_apply b (AddRequest now1 now2) = snd (LeakyBucket_add_request b now1 now2)"
| "LeakyBucket_apply b (GetQueueSize now) = snd (LeakyBucket_get_queue_size b now)"
| "LeakyBucket_apply b (GetWaitTime now) = snd (LeakyBucket_get_wait_time b now)"
| "LeakyBucket_apply b (ResetQueue now) = LeakyBucket_reset b now"

fun LeakyBucket_states :: "LeakyBucket \<Rightarrow> LeakyBucket_op list \<Rightarrow> LeakyBucket list" where
  "LeakyBucket_states b [] = [b]"
| "LeakyBucket_states b (x # xs) = b # LeakyBucket_states (LeakyBucket_apply b x) xs"


section \<open>\<^verbatim>\<open>src/API BASED PRODUCTS/Question 3/token_bucket_python.py\<close>\<close>

record Q3_TokenBucket =
  capacity :: int
  refill_rate :: real
  tokens :: real
  last_refill_time :: real

text \<open>\<open>TokenBucket.__init__\<close> of this file checks nothing and cannot raise.\<close>

definition Q3_TokenBucket_init :: "int \<Rightarrow> real \<Rightarrow> real \<Rightarrow> Q3_TokenBucket" where
  "Q3_TokenBucket_init cap rate now =
     \<lparr>Q3_TokenBucket.capacity = cap, refill_rate = rate,
      tokens = real_of_int cap, last_refill_time = now\<rparr>"

text \<open>\<open>TokenBucket._refill\<close>: the assignment is unconditional.\<close>

definition Q3_TokenBucket_refill :: "Q3_TokenBucket \<Rightarrow> real \<Rightarrow> Q3_TokenBucket" where
  "Q3_TokenBucket_refill b now =
     (let elapsed = now - Q3_TokenBucket.last_refill_time b;
          tokens_to_add = elapsed * Q3_TokenBucket.refill_rate b
      in b\<lparr>Q3_TokenBucket.tokens :=
              min (real_of_int (Q3_TokenBucket.capacity b)) (Q3_TokenBucket.tokens b + tokens_to_add),
            Q3_TokenBucket.last_refill_time := now\<rparr>)"

definition Q3_TokenBucket_consume ::
  "Q3_TokenBucket \<Rightarrow> real \<Rightarrow> int \<Rightarrow> bool \<times> Q3_TokenBucket" where
  "Q3_TokenBucket_consume b now n =
     (let b1 = Q3_TokenBucket_refill b now
      in if Q3_TokenBucket.tokens b1 \<ge> real_of_int n
         then (True, b1\<lparr>Q3_TokenBucket.tokens := Q3_TokenBucket.tokens b1 - real_of_int n\<rparr>)
         else (False, b1))"

definition Q3_TokenBucket_get_available_tokens ::
  "Q3_TokenBucket \<Rightarrow> real \<Rightarrow> real \<times> Q3_TokenBucket" where
  "Q3_TokenBucket_get_available_tokens b now =
     (let b1 = Q3_TokenBucket_refill b now in (Q3_TokenBucket.tokens b1, b1))"

definition Q3_TokenBucket_wait_time_for_tokens ::
  "Q3_TokenBucket \<Rightarrow> real \<Rightarrow> int \<Rightarrow> (error + real) \<times> Q3_TokenBucket" where
  "Q3_TokenBucket_wait_time_for_tokens b now n =
     (let b1 = Q3_TokenBucket_refill b now
      in if Q3_TokenBucket.tokens b1 \<ge> real_of_int n then (Inr 0, b1)
         else (let tokens_needed = real_of_int n - Q3_TokenBucket.tokens b1
               in (py_div tokens_needed (Q3_TokenBucket.refill_rate b1), b1)))"

text \<open>The dictionary \<open>buckets\<close> maps a client identifier to that client's bucket.\<close>

record Q3_TokenBucketRateLimiter =
  capacity :: int
  refill_rate :: real
  buckets :: "string \<rightharpoonup> Q3_TokenBucket"

definition Q3_TokenBucketRateLimiter_init :: "int \<Rightarrow> real \<Rightarrow> Q3_TokenBucketRateLimiter" where
  "Q3_TokenBucketRateLimiter_init cap rate =
     \<lparr>Q3_TokenBucketRateLimiter.capacity = cap, refill_rate = rate, buckets = Map.empty\<rparr>"

text \<open>
  \<open>TokenBucketRateLimiter.allow_request\<close>: \<open>now0\<close> is read by the constructor of a new
  bucket, \<open>now1\<close> by \<open>consume\<close>, \<open>now2\<close> by \<open>wait_time_for_tokens\<close>. The lookup
  \<open>self.buckets[client_id]\<close> raises \<open>KeyError\<close> on a missing key.
\<close>

definition Q3_TokenBucketRateLimiter_allow_request ::
  "Q3_TokenBucketRateLimiter \<Rightarrow> string \<Rightarrow> int \<Rightarrow> real \<Rightarrow> real \<Rightarrow> real
     \<Rightarrow> (error + bool \<times> real option) \<times> Q3_TokenBucketRateLimiter" where
  "Q3_TokenBucketRateLimiter_allow_request limiter cid n now0 now1 now2 =
     (let limiter1 =
            (if Q3_TokenBucketRateLimiter.buckets limiter cid = None
             then limiter\<lparr>Q3_TokenBucketRateLimiter.buckets :=
                    (Q3_TokenBucketRateLimiter.buckets limiter)
                      (cid \<mapsto>
                         Q3_TokenBucket_init (Q3_TokenBucketRateLimiter.capacity limiter)
                           (Q3_TokenBucketRateLimiter.refill_rate limiter) now0)\<rparr>
             else limiter)
      in case Q3_TokenBucketRateLimiter.buckets limiter1 cid of
           None \<Rightarrow> (Inl (KeyError cid), limiter1)
         | Some bkt \<Rightarrow>
             (case Q3_TokenBucket_consume bkt now1 n of
                (True, b1) \<Rightarrow>
                  (Inr (True, None),
                   limiter1\<lparr>Q3_TokenBucketRateLimiter.buckets :=
                     (Q3_TokenBucketRateLimiter.buckets limiter1)(cid \<mapsto> b1)\<rparr>)
              | (False, b1) \<Rightarrow>
                  (case Q3_TokenBucket_wait_time_for_tokens b1 now2 n of
                     (r, b2) \<Rightarrow>
                       ((case r of Inl e \<Rightarrow> Inl e | Inr retry_after \<Rightarrow> Inr (False, Some retry_after)),
                        limiter1\<lparr>Q3_TokenBucketRateLimiter.buckets :=
                          (Q3_TokenBucketRateLimiter.buckets limiter1)(cid \<mapsto> b2)\<rparr>))))"

text \<open>The dictionary returned by \<open>get_client_info\<close>.\<close>

record Q3_TokenClientInfo =
  client_id :: string
  tokens_available :: real
  capacity :: int
  refill_rate :: real

definition Q3_TokenBucketRateLimiter_get_client_info ::
  "Q3_TokenBucketRateLimiter \<Rightarrow> string \<Rightarrow> real
     \<Rightarrow> Q3_TokenClientInfo \<times> Q3_TokenBucketRateLimiter" where
  "Q3_TokenBucketRateLimiter_get_client_info limiter cid now =
     (case Q3_TokenBucketRateLimiter.buckets limiter cid of
        None \<Rightarrow>
          (\<lparr>Q3_TokenClientInfo.client_id = cid,
            tokens_available = real_of_int (Q3_TokenBucketRateLimiter.capacity limiter),
            capacity = Q3_TokenBucketRateLimiter.capacity limiter,
            refill_rate = Q3_TokenBucketRateLimiter.refill_rate limiter\<rparr>,
           limiter)
      | Some bkt \<Rightarrow>
          (case Q3_TokenBucket_get_available_tokens bkt now of
             (available, b1) \<Rightarrow>
               (\<lparr>Q3_TokenClientInfo.client_id = cid,
                 tokens_available = available,
                 capacity = Q3_TokenBucketRateLimiter.capacity limiter,
                 refill_rate = Q3_TokenBucketRateLimiter.refill_rate limiter\<rparr>,
                limiter\<lparr>Q3_TokenBucketRateLimiter.buckets :=
                  (Q3_TokenBucketRateLimiter.buckets limiter)(cid \<mapsto> b1)\<rparr>)))"


section \<open>\<^verbatim>\<open>src/API BASED PRODUCTS/Question 3/leaky_bucket_python.py\<close>\<close>

text \<open>
  A queue entry is the dictionary \<open>{"id": ..., "timestamp": ...}\<close>. Its \<open>id\<close> is the
  caller's \<open>request_id\<close>, or the string \<open>req_<t>\<close> formatted from a clock reading \<open>t\<close> when
  the caller gives none (or an empty one, which Python's \<open>or\<close> treats alike).
\<close>

datatype Q3_RequestId = Given string | Generated real

record Q3_Request =
  id_key :: Q3_RequestId
  timestamp :: real

record Q3_LeakyBucket =
  capacity :: int
  leak_rate :: real
  queue :: "Q3_Request list"
  last_leak_time :: real

definition Q3_LeakyBucket_init :: "int \<Rightarrow> real \<Rightarrow> real \<Rightarrow> Q3_LeakyBucket" where
  "Q3_LeakyBucket_init cap rate now =
     \<lparr>Q3_LeakyBucket.capacity = cap, leak_rate = rate, queue = [], last_leak_time = now\<rparr>"

text \<open>\<open>LeakyBucket._leak\<close>\<close>

definition Q3_LeakyBucket_leak :: "Q3_LeakyBucket \<Rightarrow> real \<Rightarrow> Q3_LeakyBucket" where
  "Q3_LeakyBucket_leak b now =
     (let elapsed = now - Q3_LeakyBucket.last_leak_time b;
          requests_to_leak = py_int (elapsed * Q3_LeakyBucket.leak_rate b)
      in if requests_to_leak > 0
         then b\<lparr>Q3_LeakyBucket.queue :=
                   popleft_times
                     (nat (min requests_to_leak (int (length (Q3_LeakyBucket.queue b)))))
                     (Q3_LeakyBucket.queue b),
                 Q3_LeakyBucket.last_leak_time := now\<rparr>
         else b)"

text \<open>
  \<open>LeakyBucket.add_request\<close>: \<open>now1\<close> is read by \<open>_leak\<close>, \<open>now2\<close> by the generated
  identifier, \<open>now3\<close> by the entry's timestamp.
\<close>

definition Q3_LeakyBucket_add_request ::
  "Q3_LeakyBucket \<Rightarrow> string option \<Rightarrow> real \<Rightarrow> real \<Rightarrow> real \<Rightarrow> bool \<times> Q3_LeakyBucket" where
  "Q3_LeakyBucket_add_request b request_id now1 now2 now3 =
     (let b1 = Q3_LeakyBucket_leak b now1
      in if int (length (Q3_LeakyBucket.queue b1)) < Q3_LeakyBucket.capacity b1
         then (True,
               b1\<lparr>Q3_LeakyBucket.queue := Q3_LeakyBucket.queue b1 @
                    [\<lparr>id_key = (case request_id of
                                   None \<Rightarrow> Generated now2
                                 | Some s \<Rightarrow> if s = [] then Generated now2 else Given s),
                      timestamp = now3\<rparr>]\<rparr>)
         else (False, b1))"

definition Q3_LeakyBucket_get_queue_size :: "Q3_LeakyBucket \<Rightarrow> real \<Rightarrow> int \<times> Q3_LeakyBucket" where
  "Q3_LeakyBucket_get_queue_size b now =
     (let b1 = Q3_LeakyBucket_leak b now in (int (length (Q3_LeakyBucket.queue b1)), b1))"

definition Q3_LeakyBucket_get_wait_time ::
  "Q3_LeakyBucket \<Rightarrow> real \<Rightarrow> (error + real) \<times> Q3_LeakyBucket" where
  "Q3_LeakyBucket_get_wait_time b now =
     (let b1 = Q3_LeakyBucket_leak b now
      in if int (length (Q3_LeakyBucket.queue b1)) < Q3_LeakyBucket.capacity b1 then (Inr 0, b1)
         else (py_div 1 (Q3_LeakyBucket.leak_rate b1), b1))"

definition Q3_LeakyBucket_is_full :: "Q3_LeakyBucket \<Rightarrow> real \<Rightarrow> bool \<times> Q3_LeakyBucket" where
  "Q3_LeakyBucket_is_full b now =
     (let b1 = Q3_LeakyBucket_leak b now
      in (int (length (Q3_LeakyBucket.queue b1)) \<ge> Q3_LeakyBucket.capacity b1, b1))"

record Q3_LeakyBucketRateLimiter =
  capacity :: int
  leak_rate :: real
  buckets :: "string \<rightharpoonup> Q3_LeakyBucket"

definition Q3_LeakyBucketRateLimiter_init :: "int \<Rightarrow> real \<Rightarrow> Q3_LeakyBucketRateLimiter" where
  "Q3_LeakyBucketRateLimiter_init cap rate =
     \<lparr>Q3_LeakyBucketRateLimiter.capacity = cap, leak_rate = rate, buckets = Map.empty\<rparr>"

text \<open>
  \<open>LeakyBucketRateLimiter.allow_request\<close>: \<open>now0\<close> is read by the constructor of a new
  bucket, \<open>now1\<close>, \<open>now2\<close>, \<open>now3\<close> by \<open>add_request\<close>, \<open>now4\<close> by \<open>get_wait_time\<close>.
\<close>

definition Q3_LeakyBucketRateLimiter_allow_request ::
  "Q3_LeakyBucketRateLimiter \<Rightarrow> string \<Rightarrow> string option \<Rightarrow> real \<Rightarrow> real \<Rightarrow> real \<Rightarrow> real \<Rightarrow> real
     \<Rightarrow> (error + bool \<times> real option) \<times> Q3_LeakyBucketRateLimiter" where
  "Q3_LeakyBucketRateLimiter_allow_request limiter cid request_id now0 now1 now2 now3 now4 =
     (let limiter1 =
            (if Q3_LeakyBucketRateLimiter.buckets limiter cid = None
             then limiter\<lparr>Q3_LeakyBucketRateLimiter.buckets :=
                    (Q3_LeakyBucketRateLimiter.buckets limiter)
                      (cid \<mapsto>
                         Q3_LeakyBucket_init (Q3_LeakyBucketRateLimiter.capacity limiter)
                           (Q3_LeakyBucketRateLimiter.leak_rate limiter) now0)\<rparr>
             else limiter)
      in case Q3_LeakyBucketRateLimiter.buckets limiter1 cid of
           None \<Rightarrow> (Inl (KeyError cid), limiter1)
         | Some bkt \<Rightarrow>
             (case Q3_LeakyBucket_add_request bkt request_id now1 now2 now3 of
                (True, b1) \<Rightarrow>
                  (Inr (True, None),
                   limiter1\<lparr>Q3_LeakyBucketRateLimiter.buckets :=
                     (Q3_LeakyBucketRateLimiter.buckets limiter1)(cid \<mapsto> b1)\<rparr>)
              | (False, b1) \<Rightarrow>
                  (case Q3_LeakyBucket_get_wait_time b1 now4 of
                     (r, b2) \<Rightarrow>
                       ((case r of Inl e \<Rightarrow> Inl e | Inr retry_after \<Rightarrow> Inr (False, Some retry_after)),
                        limiter1\<lparr>Q3_LeakyBucketRateLimiter.buckets :=
                          (Q3_LeakyBucketRateLimiter.buckets limiter1)(cid \<mapsto> b2)\<rparr>))))"

record Q3_LeakyClientInfo =
  client_id :: string
  queue_size :: int
  capacity :: int
  leak_rate :: real
  is_full :: bool

text \<open>
  \<open>LeakyBucketRateLimiter.get_client_info\<close>: \<open>now1\<close> is read by \<open>get_queue_size\<close>, \<open>now2\<close>
  by \<open>is_full\<close>, evaluated in the order of the dictionary display.
\<close>

definition Q3_LeakyBucketRateLimiter_get_client_info ::
  "Q3_LeakyBucketRateLimiter \<Rightarrow> string \<Rightarrow> real \<Rightarrow> real
     \<Rightarrow> Q3_LeakyClientInfo \<times> Q3_LeakyBucketRateLimiter" where
  "Q3_LeakyBucketRateLimiter_get_client_info limiter cid now1 now2 =
     (case Q3_LeakyBucketRateLimiter.buckets limiter cid of
        None \<Rightarrow>
          (\<lparr>Q3_LeakyClientInfo.client_id = cid, queue_size = 0,
            capacity = Q3_LeakyBucketRateLimiter.capacity limiter,
            leak_rate = Q3_LeakyBucketRateLimiter.leak_rate limiter,
            is_full = False\<rparr>,
           limiter)
      | Some bkt \<Rightarrow>
          (case Q3_LeakyBucket_get_queue_size bkt now1 of
             (qsize, b1) \<Rightarrow>
               (case Q3_LeakyBucket_is_full b1 now2 of
                  (qfull, b2) \<Rightarrow>
                    (\<lparr>Q3_LeakyClientInfo.client_id = cid, queue_size = qsize,
                      capacity = Q3_LeakyBucketRateLimiter.capacity limiter,
                      leak_rate = Q3_LeakyBucketRateLimiter.leak_rate limiter,
                      is_full = qfull\<rparr>,
                     limiter\<lparr>Q3_LeakyBucketRateLimiter.buckets :=
                       (Q3_LeakyBucketRateLimiter.buckets limiter)(cid \<mapsto> b2)\<rparr>))))"


section \<open>\<^verbatim>\<open>src/API Project/question3_rate_limiting/leaky_bucket.py\<close>\<close>

text \<open>
  The queue is a \<open>deque(maxlen=capacity)\<close>: appending to a full one drops its oldest
  entry, and one of length zero stays empty.
\<close>

definition deque_append :: "int \<Rightarrow> 'a list \<Rightarrow> 'a \<Rightarrow> 'a list" where
  "deque_append maxlen q x =
     (if maxlen \<le> 0 then []
      else if int (length q) \<ge> maxlen then tl q @ [x]
      else q @ [x])"

record AP_LeakyBucket =
  capacity :: int
  leak_rate :: real
  queue :: "real list"
  last_leak :: real

text \<open>
  \<open>LeakyBucket.__init__\<close>: \<open>now\<close> is the reading stored in \<open>last_leak\<close>, \<open>stamps i\<close> the
  reading appended by iteration \<open>i\<close> of the loop over \<open>range(min(initial_size, capacity))\<close>.
\<close>

definition AP_LeakyBucket_init ::
  "int \<Rightarrow> real \<Rightarrow> int \<Rightarrow> real \<Rightarrow> (nat \<Rightarrow> real) \<Rightarrow> error + AP_LeakyBucket" where
  "AP_LeakyBucket_init cap rate initial_size now stamps =
     (if cap \<le> 0 then Inl (ValueError ''Capacity must be greater than 0'')
      else if rate \<le> 0 then Inl (ValueError ''Leak rate must be greater than 0'')
      else Inr \<lparr>AP_LeakyBucket.capacity = cap, leak_rate = rate,
                queue = foldl (\<lambda>q i. deque_append cap q (stamps i)) []
                          [0 ..< nat (min initial_size cap)],
                last_leak = now\<rparr>)"

text \<open>
  The loop of \<open>LeakyBucket._leak_requests\<close>, whose body is
  \<^verbatim>\<open>if self.queue: self.queue.popleft()\<close>.
\<close>

fun AP_popleft_times :: "nat \<Rightarrow> 'a list \<Rightarrow> 'a list" where
  "AP_popleft_times 0 q = q"
| "AP_popleft_times (Suc k) q = AP_popleft_times k (if q \<noteq> [] then tl q else q)"

definition AP_LeakyBucket_leak_requests :: "AP_LeakyBucket \<Rightarrow> real \<Rightarrow> AP_LeakyBucket" where
  "AP_LeakyBucket_leak_requests b current_time =
     (let elapsed = current_time - AP_LeakyBucket.last_leak b;
          requests_to_process = py_int (elapsed * AP_LeakyBucket.leak_rate b)
      in if requests_to_process > 0
         then b\<lparr>AP_LeakyBucket.queue :=
                   AP_popleft_times
                     (nat (min requests_to_process (int (length (AP_LeakyBucket.queue b)))))
                     (AP_LeakyBucket.queue b),
                 AP_LeakyBucket.last_leak := current_time\<rparr>
         else b)"

definition AP_LeakyBucket_add_request ::
  "AP_LeakyBucket \<Rightarrow> real \<Rightarrow> real \<Rightarrow> bool \<times> AP_LeakyBucket" where
  "AP_LeakyBucket_add_request b now1 now2 =
     (let b1 = AP_LeakyBucket_leak_requests b now1
      in if int (length (AP_LeakyBucket.queue b1)) < AP_LeakyBucket.capacity b1
         then (True,
               b1\<lparr>AP_LeakyBucket.queue :=
                    deque_append (AP_LeakyBucket.capacity b1) (AP_LeakyBucket.queue b1) now2\<rparr>)
         else (False, b1))"

definition AP_LeakyBucket_get_wait_time ::
  "AP_LeakyBucket \<Rightarrow> real \<Rightarrow> (error + real) \<times> AP_LeakyBucket" where
  "AP_LeakyBucket_get_wait_time b now =
     (let b1 = AP_LeakyBucket_leak_requests b now
      in if int (length (AP_LeakyBucket.queue b1)) < AP_LeakyBucket.capacity b1 then (Inr 0, b1)
         else if AP_LeakyBucket.queue b1 \<noteq> []
         then (let requests_ahead = length (AP_LeakyBucket.queue b1)
               in case py_div (real requests_ahead) (AP_LeakyBucket.leak_rate b1) of
                    Inl e \<Rightarrow> (Inl e, b1)
                  | Inr time_to_process \<Rightarrow> (Inr (max 0 time_to_process), b1))
         else (Inr 0, b1))"


section \<open>Repeated calls of \<open>allow_request\<close>\<close>

text \<open>
  A run of calls on one limiter, each with its own clock readings; the results are
  collected in call order.
\<close>

fun TokenBucketRateLimiter_allow_requests ::
  "TokenBucketRateLimiter \<Rightarrow> (real \<times> real) list \<Rightarrow> (error + bool \<times> real option) list" where
  "TokenBucketRateLimiter_allow_requests limiter [] = []"
| "TokenBucketRateLimiter_allow_requests limiter ((now1, now2) # ts) =
     (case TokenBucketRateLimiter_allow_request limiter now1 now2 of
        (r, limiter1) \<Rightarrow> r # TokenBucketRateLimiter_allow_requests limiter1 ts)"

fun Q3_TokenBucketRateLimiter_allow_requests ::
  "Q3_TokenBucketRateLimiter \<Rightarrow> string \<Rightarrow> int \<Rightarrow> (real \<times> real \<times> real) list
     \<Rightarrow> (error + bool \<times> real option) list" where
  "Q3_TokenBucketRateLimiter_allow_requests limiter cid n [] = []"
| "Q3_TokenBucketRateLimiter_allow_requests limiter cid n ((now0, now1, now2) # ts) =
     (case Q3_TokenBucketRateLimiter_allow_request limiter cid n now0 now1 now2 of
        (r, limiter1) \<Rightarrow> r # Q3_TokenBucketRateLimiter_allow_requests limiter1 cid n ts)"


section \<open>Invariants\<close>

definition TokenBucket_inv :: "TokenBucket \<Rightarrow> bool" where
  "TokenBucket_inv b \<longleftrightarrow>
     0 \<le> TokenBucket.tokens b \<and> TokenBucket.tokens b \<le> real_of_int (TokenBucket.capacity b)"

definition LeakyBucket_inv :: "LeakyBucket \<Rightarrow> bool" where
  "LeakyBucket_inv b \<longleftrightarrow>
     0 \<le> int (length (LeakyBucket.bucket b))
     \<and> int (length (LeakyBucket.bucket b)) \<le> LeakyBucket.capacity b"


section \<open>Auxiliary facts\<close>

lemma popleft_times_drop: "popleft_times k q = drop k q"
  by (induction k arbitrary: q) (simp_all add: drop_Suc)

lemma TokenBucket_refill_tokens_inv:
  "TokenBucket_inv b \<Longrightarrow> TokenBucket_inv (TokenBucket_refill_tokens b now)"
  by (auto simp: TokenBucket_inv_def TokenBucket_refill_tokens_def Let_def)

lemma TokenBucket_apply_inv:
  "TokenBucket_inv b \<Longrightarrow> positive_cost x \<Longrightarrow> TokenBucket_inv (TokenBucket_apply b x)"
proof (cases x)
  case (Consume now n)
  assume inv: "TokenBucket_inv b" and pos: "positive_cost x"
  have "TokenBucket_inv (TokenBucket_refill_tokens b now)"
    using inv by (rule TokenBucket_refill_tokens_inv)
  with pos Consume show ?thesis
    by (auto simp: TokenBucket_consume_def Let_def TokenBucket_inv_def)
next
  case (GetAvailableTokens now)
  assume "TokenBucket_inv b"
  then show ?thesis using GetAvailableTokens
    by (simp add: TokenBucket_get_available_tokens_def Let_def TokenBucket_refill_tokens_inv)
next
  case (Reset now)
  assume "TokenBucket_inv b"
  then show ?thesis using Reset
    by (auto simp: TokenBucket_reset_def TokenBucket_inv_def)
qed

lemma TokenBucket_states_inv:
  "TokenBucket_inv b \<Longrightarrow> \<forall>x\<in>set xs. positive_cost x
     \<Longrightarrow> \<forall>s\<in>set (TokenBucket_states b xs). TokenBucket_inv s"
proof (induction xs arbitrary: b)
  case Nil
  then show ?case by simp
next
  case (Cons x xs)
  from Cons.prems have "TokenBucket_inv (TokenBucket_apply b x)"
    by (simp add: TokenBucket_apply_inv)
  moreover from Cons.prems have "\<forall>y\<in>set xs. positive_cost y" by simp
  ultimately have "\<forall>s\<in>set (TokenBucket_states (TokenBucket_apply b x) xs). TokenBucket_inv s"
    by (rule Cons.IH)
  with Cons.prems(1) show ?case by simp
qed

lemma TokenBucket_init_inv: "TokenBucket_init cap rate now = Inr b \<Longrightarrow> TokenBucket_inv b"
  by (auto simp: TokenBucket_init_def TokenBucket_inv_def split: if_splits)

lemma LeakyBucket_leak_requests_inv:
  "LeakyBucket_inv b \<Longrightarrow> LeakyBucket_inv (LeakyBucket_leak_requests b now)"
  by (auto simp: LeakyBucket_inv_def LeakyBucket_leak_requests_def Let_def popleft_times_drop)

lemma LeakyBucket_apply_inv:
  "LeakyBucket_inv b \<Longrightarrow> LeakyBucket_inv (LeakyBucket_apply b x)"
proof (cases x)
  case (AddRequest now1 now2)
  assume "LeakyBucket_inv b"
  then have "LeakyBucket_inv (LeakyBucket_leak_requests b now1)"
    by (rule LeakyBucket_leak_requests_inv)
  then show ?thesis using AddRequest
    by (auto simp: LeakyBucket_add_request_def Let_def LeakyBucket_inv_def)
next
  case (GetQueueSize now)
  assume "LeakyBucket_inv b"
  then show ?thesis using GetQueueSize
    by (simp add: LeakyBucket_get_queue_size_def Let_def LeakyBucket_leak_requests_inv)
next
  case (GetWaitTime now)
  assume "LeakyBucket_inv b"
  then show ?thesis using GetWaitTime
    by (simp add: LeakyBucket_get_wait_time_def Let_def LeakyBucket_leak_requests_inv)
next
  case (ResetQueue now)
  assume "LeakyBucket_inv b"
  then show ?thesis using ResetQueue
    by (auto simp: LeakyBucket_reset_def LeakyBucket_inv_def)
qed

lemma LeakyBucket_states_inv:
  "LeakyBucket_inv b \<Longrightarrow> \<forall>s\<in>set (LeakyBucket_states b xs). LeakyBucket_inv s"
proof (induction xs arbitrary: b)
  case Nil
  then show ?case by simp
next
  case (Cons x xs)
  from Cons.prems have "LeakyBucket_inv (LeakyBucket_apply b x)"
    by (rule LeakyBucket_apply_inv)
  then have "\<forall>s\<in>set (LeakyBucket_states (LeakyBucket_apply b x) xs). LeakyBucket_inv s"
    by (rule Cons.IH)
  with Cons.prems show ?case by simp
qed

lemma LeakyBucket_init_inv: "LeakyBucket_init cap rate now = Inr b \<Longrightarrow> LeakyBucket_inv b"
  by (auto simp: LeakyBucket_init_def LeakyBucket_inv_def split: if_splits)


section \<open>The capacity bound\<close>

text \<open>
  C1. A bucket of \<^verbatim>\<open>src/rate_limiting\<close> that its constructor has accepted keeps its level
  within bounds under every sequence of public operations whose consume costs are
  positive, for every sequence of clock readings: \<open>0 \<le> tokens \<le> capacity\<close> for the
  token bucket and \<open>0 \<le> len(bucket) \<le> capacity\<close> for the leaky bucket, in the state
  before the first operation and in the state after each operation.
\<close>

theorem capacity_bound:
  assumes "TokenBucket_init cap rate t0 = Inr tb"
    and "\<forall>x\<in>set xs. positive_cost x"
    and "LeakyBucket_init cap' rate' t0' = Inr lb"
  shows "(\<forall>s\<in>set (TokenBucket_states tb xs).
            0 \<le> TokenBucket.tokens s \<and> TokenBucket.tokens s \<le> real_of_int (TokenBucket.capacity s))
       \<and> (\<forall>s\<in>set (LeakyBucket_states lb ys).
            0 \<le> int (length (LeakyBucket.bucket s))
            \<and> int (length (LeakyBucket.bucket s)) \<le> LeakyBucket.capacity s)"
proof
  from assms(1) have "TokenBucket_inv tb" by (rule TokenBucket_init_inv)
  from TokenBucket_states_inv [OF this assms(2)]
  show "\<forall>s\<in>set (TokenBucket_states tb xs).
            0 \<le> TokenBucket.tokens s \<and> TokenBucket.tokens s \<le> real_of_int (TokenBucket.capacity s)"
    by (simp add: TokenBucket_inv_def)
next
  from assms(3) have "LeakyBucket_inv lb" by (rule LeakyBucket_init_inv)
  from LeakyBucket_states_inv [OF this]
  show "\<forall>s\<in>set (LeakyBucket_states lb ys).
            0 \<le> int (length (LeakyBucket.bucket s))
            \<and> int (length (LeakyBucket.bucket s)) \<le> LeakyBucket.capacity s"
    by (simp add: LeakyBucket_inv_def)
qed

text \<open>
  An instance: buckets of capacity 2 and rate 1, with a burst beyond the capacity, a
  refill, a clock that runs backwards, and a reset.
\<close>

theorem capacity_bound_witness:
  "TokenBucket_init 2 1 0
     = Inr \<lparr>TokenBucket.capacity = 2, refill_rate = 1, tokens = 2, last_refill = 0\<rparr>
   \<and> list_all positive_cost
        [Consume 0 1, Consume 0 1, Consume 0 1, Consume (1/2) 1, GetAvailableTokens 5,
         Consume 4 2, Reset 3]
   \<and> list_all (\<lambda>s. 0 \<le> TokenBucket.tokens s
                    \<and> TokenBucket.tokens s \<le> real_of_int (TokenBucket.capacity s))
        (TokenBucket_states
           \<lparr>TokenBucket.capacity = 2, refill_rate = 1, tokens = 2, last_refill = 0\<rparr>
           [Consume 0 1, Consume 0 1, Consume 0 1, Consume (1/2) 1, GetAvailableTokens 5,
            Consume 4 2, Reset 3])
   \<and> LeakyBucket_init 2 1 0
     = Inr \<lparr>LeakyBucket.capacity = 2, leak_rate = 1, bucket = [], last_leak = 0\<rparr>
   \<and> list_all (\<lambda>s. 0 \<le> int (length (LeakyBucket.bucket s))
                    \<and> int (length (LeakyBucket.bucket s)) \<le> LeakyBucket.capacity s)
        (LeakyBucket_states
           \<lparr>LeakyBucket.capacity = 2, leak_rate = 1, bucket = [], last_leak = 0\<rparr>
           [AddRequest 0 0, AddRequest 0 0, AddRequest 0 0, GetWaitTime 0,
            GetQueueSize (3/2), AddRequest 1 1, ResetQueue 3])"
proof -
  have h1: "TokenBucket_init 2 1 0
              = Inr \<lparr>TokenBucket.capacity = 2, refill_rate = 1, tokens = 2, last_refill = 0\<rparr>"
    by (simp add: TokenBucket_init_def)
  have h2: "\<forall>x\<in>set [Consume 0 1, Consume 0 1, Consume 0 1, Consume (1/2) 1,
                        GetAvailableTokens 5, Consume 4 2, Reset 3]. positive_cost x"
    by simp
  have h3: "LeakyBucket_init 2 1 0
              = Inr \<lparr>LeakyBucket.capacity = 2, leak_rate = 1, bucket = [], last_leak = 0\<rparr>"
    by (simp add: LeakyBucket_init_def)
  note c = capacity_bound [OF h1 h2 h3]
  show ?thesis
    unfolding list_all_iff
    by (intro conjI h1 h2 h3 c [THEN conjunct1] c [THEN conjunct2])
qed


section \<open>Facts about single operations\<close>

lemma Q3_TokenBucket_refill_le_capacity:
  "Q3_TokenBucket.tokens (Q3_TokenBucket_refill b now) \<le> real_of_int (Q3_TokenBucket.capacity b)"
  by (simp add: Q3_TokenBucket_refill_def Let_def)

lemma Q3_TokenBucket_refill_config:
  "Q3_TokenBucket.capacity (Q3_TokenBucket_refill b now) = Q3_TokenBucket.capacity b"
  "Q3_TokenBucket.refill_rate (Q3_TokenBucket_refill b now) = Q3_TokenBucket.refill_rate b"
  by (simp_all add: Q3_TokenBucket_refill_def Let_def)

lemma Q3_TokenBucket_consume_over_capacity:
  assumes "Q3_TokenBucket.capacity b < n"
  shows "Q3_TokenBucket_consume b now n = (False, Q3_TokenBucket_refill b now)"
proof -
  have "Q3_TokenBucket.tokens (Q3_TokenBucket_refill b now) \<le> real_of_int (Q3_TokenBucket.capacity b)"
    by (rule Q3_TokenBucket_refill_le_capacity)
  also have "\<dots> < real_of_int n" using assms by simp
  finally show ?thesis by (simp add: Q3_TokenBucket_consume_def Let_def)
qed

lemma Q3_TokenBucket_wait_time_over_capacity:
  assumes "Q3_TokenBucket.capacity b < n" and "Q3_TokenBucket.refill_rate b \<noteq> 0"
  shows "Q3_TokenBucket_wait_time_for_tokens b now n =
           (Inr ((real_of_int n - Q3_TokenBucket.tokens (Q3_TokenBucket_refill b now))
                   / Q3_TokenBucket.refill_rate b),
            Q3_TokenBucket_refill b now)"
proof -
  have "Q3_TokenBucket.tokens (Q3_TokenBucket_refill b now) \<le> real_of_int (Q3_TokenBucket.capacity b)"
    by (rule Q3_TokenBucket_refill_le_capacity)
  also have "\<dots> < real_of_int n" using assms by simp
  finally show ?thesis using assms(2)
    by (simp add: Q3_TokenBucket_wait_time_for_tokens_def Let_def py_div_def
        Q3_TokenBucket_refill_config)
qed

lemma AP_LeakyBucket_leak_requests_config:
  "AP_LeakyBucket.capacity (AP_LeakyBucket_leak_requests b now) = AP_LeakyBucket.capacity b"
  "AP_LeakyBucket.leak_rate (AP_LeakyBucket_leak_requests b now) = AP_LeakyBucket.leak_rate b"
  by (simp_all add: AP_LeakyBucket_leak_requests_def Let_def)

lemma LeakyBucket_leak_requests_config:
  "LeakyBucket.capacity (LeakyBucket_leak_requests b now) = LeakyBucket.capacity b"
  "LeakyBucket.leak_rate (LeakyBucket_leak_requests b now) = LeakyBucket.leak_rate b"
  by (simp_all add: LeakyBucket_leak_requests_def Let_def)

lemma Q3_LeakyBucket_leak_config:
  "Q3_LeakyBucket.capacity (Q3_LeakyBucket_leak b now) = Q3_LeakyBucket.capacity b"
  "Q3_LeakyBucket.leak_rate (Q3_LeakyBucket_leak b now) = Q3_LeakyBucket.leak_rate b"
  by (simp_all add: Q3_LeakyBucket_leak_def Let_def)

lemma AP_LeakyBucket_get_wait_time_eq:
  assumes "0 < AP_LeakyBucket.capacity b" and "0 < AP_LeakyBucket.leak_rate b"
  shows "fst (AP_LeakyBucket_get_wait_time b now) =
           (let q = AP_LeakyBucket.queue (AP_LeakyBucket_leak_requests b now)
            in if int (length q) < AP_LeakyBucket.capacity b then Inr 0
               else Inr (real (length q) / AP_LeakyBucket.leak_rate b))"
proof -
  let ?q = "AP_LeakyBucket.queue (AP_LeakyBucket_leak_requests b now)"
  show ?thesis
  proof (cases "int (length ?q) < AP_LeakyBucket.capacity b")
    case True
    then show ?thesis
      by (simp add: AP_LeakyBucket_get_wait_time_def Let_def AP_LeakyBucket_leak_requests_config)
  next
    case False
    with assms(1) have ne: "?q \<noteq> []" by auto
    have "0 \<le> real (length ?q) / AP_LeakyBucket.leak_rate b"
      using assms(2) by simp
    with False ne assms(2) show ?thesis
      by (simp add: AP_LeakyBucket_get_wait_time_def Let_def AP_LeakyBucket_leak_requests_config
          py_div_def max_def)
  qed
qed

text \<open>
  The buckets of \<^verbatim>\<open>src/rate_limiting\<close> and of \<^verbatim>\<open>src/API Project\<close> reject a capacity or a
  rate that is not positive, and the refill of \<^verbatim>\<open>src/rate_limiting/token_bucket.py\<close>
  ignores a clock reading that is not later than \<open>last_refill\<close>.
\<close>

lemma TokenBucket_init_invalid:
  assumes "cap \<le> 0 \<or> rate \<le> 0"
  shows "\<exists>msg. TokenBucket_init cap rate now = Inl (ValueError msg)"
  using assms by (auto simp: TokenBucket_init_def)

lemma LeakyBucket_init_invalid:
  assumes "cap \<le> 0 \<or> rate \<le> 0"
  shows "\<exists>msg. LeakyBucket_init cap rate now = Inl (ValueError msg)"
  using assms by (auto simp: LeakyBucket_init_def)

lemma AP_LeakyBucket_init_invalid:
  assumes "cap \<le> 0 \<or> rate \<le> 0"
  shows "\<exists>msg. AP_LeakyBucket_init cap rate k now stamps = Inl (ValueError msg)"
  using assms by (auto simp: AP_LeakyBucket_init_def)

lemma TokenBucket_refill_tokens_clock_regression:
  assumes "0 < TokenBucket.refill_rate b" and "now \<le> TokenBucket.last_refill b"
  shows "TokenBucket_refill_tokens b now = b"
proof -
  have "(now - TokenBucket.last_refill b) * TokenBucket.refill_rate b \<le> 0"
    using assms by (simp add: mult_le_0_iff)
  then show ?thesis by (simp add: TokenBucket_refill_tokens_def Let_def)
qed


section \<open>Consuming tokens\<close>

text \<open>
  What \<open>consume\<close> computes, with the refill written out. In
  \<^verbatim>\<open>src/rate_limiting/token_bucket.py\<close> (rate positive, as the constructor checks) a
  reading later than \<open>last_refill\<close> raises the level to
  \<open>min(capacity, tokens + elapsed * refill_rate)\<close> and moves \<open>last_refill\<close> to \<open>now\<close>; any
  other reading changes nothing. The cost is then compared with that level: it is
  subtracted on success, and on denial the level stays the refilled one.
\<close>

lemma TokenBucket_refill_tokens_elapsed:
  assumes "0 < TokenBucket.refill_rate b" and "TokenBucket.last_refill b < now"
  shows "TokenBucket_refill_tokens b now =
           b\<lparr>TokenBucket.tokens :=
                min (real_of_int (TokenBucket.capacity b))
                    (TokenBucket.tokens b
                       + (now - TokenBucket.last_refill b) * TokenBucket.refill_rate b),
             TokenBucket.last_refill := now\<rparr>"
proof -
  have "0 < (now - TokenBucket.last_refill b) * TokenBucket.refill_rate b"
    using assms by simp
  then show ?thesis by (simp add: TokenBucket_refill_tokens_def Let_def)
qed

lemma TokenBucket_consume_explicit:
  assumes "0 < TokenBucket.refill_rate b"
  shows "TokenBucket_consume b now n =
           (let level = (if TokenBucket.last_refill b < now
                         then min (real_of_int (TokenBucket.capacity b))
                                  (TokenBucket.tokens b
                                     + (now - TokenBucket.last_refill b) * TokenBucket.refill_rate b)
                         else TokenBucket.tokens b);
                stamp = (if TokenBucket.last_refill b < now then now else TokenBucket.last_refill b)
            in if level \<ge> real_of_int n
               then (True, b\<lparr>TokenBucket.tokens := level - real_of_int n,
                              TokenBucket.last_refill := stamp\<rparr>)
               else (False, b\<lparr>TokenBucket.tokens := level, TokenBucket.last_refill := stamp\<rparr>))"
proof (cases "TokenBucket.last_refill b < now")
  case True
  with assms show ?thesis
    by (simp add: TokenBucket_consume_def TokenBucket_refill_tokens_elapsed Let_def)
next
  case False
  then have "now \<le> TokenBucket.last_refill b" by simp
  with assms have "TokenBucket_refill_tokens b now = b"
    by (rule TokenBucket_refill_tokens_clock_regression)
  with False show ?thesis
    by (simp add: TokenBucket_consume_def Let_def)
qed

text \<open>
  In Question 3 the refill is unconditional: the level becomes
  \<open>min(capacity, tokens + elapsed * refill_rate)\<close> and \<open>last_refill_time\<close> becomes \<open>now\<close> for
  every reading, also when \<open>elapsed\<close> is negative.
\<close>

lemma Q3_TokenBucket_consume_explicit:
  "Q3_TokenBucket_consume b now n =
     (let level = min (real_of_int (Q3_TokenBucket.capacity b))
                      (Q3_TokenBucket.tokens b
                         + (now - Q3_TokenBucket.last_refill_time b) * Q3_TokenBucket.refill_rate b)
      in if level \<ge> real_of_int n
         then (True, b\<lparr>Q3_TokenBucket.tokens := level - real_of_int n,
                        Q3_TokenBucket.last_refill_time := now\<rparr>)
         else (False, b\<lparr>Q3_TokenBucket.tokens := level, Q3_TokenBucket.last_refill_time := now\<rparr>))"
  by (simp add: Q3_TokenBucket_consume_def Q3_TokenBucket_refill_def Let_def)

text \<open>
  One second after the last refill, at rate 2: an empty bucket holds 2 tokens, grants a
  cost of 2 and denies a cost of 3, keeping the 2 tokens; a bucket of capacity 10 holding
  9 is capped at 10 and grants a cost of 4.
\<close>

lemma consume_after_one_second:
  "TokenBucket_consume
     \<lparr>TokenBucket.capacity = 10, refill_rate = 2, tokens = 0, last_refill = 100\<rparr> 101 2
     = (True, \<lparr>TokenBucket.capacity = 10, refill_rate = 2, tokens = 0, last_refill = 101\<rparr>)
   \<and> TokenBucket_consume
     \<lparr>TokenBucket.capacity = 10, refill_rate = 2, tokens = 0, last_refill = 100\<rparr> 101 3
     = (False, \<lparr>TokenBucket.capacity = 10, refill_rate = 2, tokens = 2, last_refill = 101\<rparr>)
   \<and> Q3_TokenBucket_consume
     \<lparr>Q3_TokenBucket.capacity = 10, refill_rate = 2, tokens = 9, last_refill_time = 100\<rparr> 101 4
     = (True, \<lparr>Q3_TokenBucket.capacity = 10, refill_rate = 2, tokens = 6, last_refill_time = 101\<rparr>)"
  by (simp add: TokenBucket_consume_explicit Q3_TokenBucket_consume_explicit Let_def)



section \<open>Twelve immediate requests\<close>

text \<open>
  C3, as the code behaves. A limiter of capacity 10 and rate 2 is called twelve times
  while the clock stands at \<open>t\<close>. The first ten calls are allowed; the eleventh and the
  twelfth are denied, each with a retry-after of half a second, because a denial leaves
  the level at zero. This holds for the single-bucket limiter of
  \<^verbatim>\<open>src/rate_limiting/token_bucket.py\<close> and for any client of the Question 3 limiter.
\<close>

theorem twelve_immediate_requests:
  "TokenBucketRateLimiter_init 10 2 t =
      Inr \<lparr>TokenBucketRateLimiter.bucket =
             \<lparr>TokenBucket.capacity = 10, refill_rate = 2, tokens = 10, last_refill = t\<rparr>\<rparr>
   \<and> TokenBucketRateLimiter_allow_requests
        \<lparr>TokenBucketRateLimiter.bucket =
           \<lparr>TokenBucket.capacity = 10, refill_rate = 2, tokens = 10, last_refill = t\<rparr>\<rparr>
        (replicate 12 (t, t))
      = replicate 10 (Inr (True, None)) @ [Inr (False, Some (1/2)), Inr (False, Some (1/2))]
   \<and> Q3_TokenBucketRateLimiter_allow_requests (Q3_TokenBucketRateLimiter_init 10 2) cid 1
        (replicate 12 (t, t, t))
      = replicate 10 (Inr (True, None)) @ [Inr (False, Some (1/2)), Inr (False, Some (1/2))]"
  by (simp add: TokenBucketRateLimiter_allow_request_def TokenBucket_consume_def
      TokenBucket_refill_tokens_def TokenBucket_get_available_tokens_def
      TokenBucketRateLimiter_init_def TokenBucket_init_def
      Q3_TokenBucketRateLimiter_allow_request_def Q3_TokenBucket_consume_def
      Q3_TokenBucket_refill_def Q3_TokenBucket_wait_time_for_tokens_def
      Q3_TokenBucketRateLimiter_init_def Q3_TokenBucket_init_def
      py_div_def Let_def numeral_eq_Suc)

text \<open>
  C3, as stated, fails: with the clock at 0 the twelfth call (index 11) returns a
  retry-after of 0.5 seconds in both implementations, not one of about 1.0.
\<close>

theorem twelve_immediate_requests_counterexample:
  "TokenBucketRateLimiter_allow_requests
        \<lparr>TokenBucketRateLimiter.bucket =
           \<lparr>TokenBucket.capacity = 10, refill_rate = 2, tokens = 10, last_refill = 0\<rparr>\<rparr>
        (replicate 12 (0, 0)) ! 11 = Inr (False, Some (1/2))
   \<and> Q3_TokenBucketRateLimiter_allow_requests (Q3_TokenBucketRateLimiter_init 10 2) ''user_123'' 1
        (replicate 12 (0, 0, 0)) ! 11 = Inr (False, Some (1/2))
   \<and> (Inr (False, Some (1/2)) :: error + bool \<times> real option) \<noteq> Inr (False, Some 1)"
  by (simp add: TokenBucketRateLimiter_allow_request_def TokenBucket_consume_def
      TokenBucket_refill_tokens_def TokenBucket_get_available_tokens_def
      Q3_TokenBucketRateLimiter_allow_request_def Q3_TokenBucket_consume_def
      Q3_TokenBucket_refill_def Q3_TokenBucket_wait_time_for_tokens_def
      Q3_TokenBucketRateLimiter_init_def Q3_TokenBucket_init_def
      py_div_def Let_def numeral_eq_Suc)



section \<open>A cost above the capacity\<close>

text \<open>
  C4, as the code behaves (Question 3). Let \<open>b\<close> be the bucket that serves client \<open>cid\<close>:
  the one stored for it, or the one \<open>allow_request\<close> creates for an unseen client. If
  the cost \<open>n\<close> exceeds the capacity of \<open>b\<close>, then \<open>consume\<close> denies in every state of \<open>b\<close>
  and for every clock reading, and, the rate being non-zero, \<open>allow_request\<close> returns
  \<open>(False, retry_after)\<close> where \<open>retry_after\<close> is the finite duration
  \<open>(n - tokens) / refill_rate\<close> computed by \<open>wait_time_for_tokens\<close>; the only change to the
  limiter is the refill of that client's bucket.
\<close>

theorem cost_over_capacity:
  assumes "Q3_TokenBucket.capacity b < n" and "Q3_TokenBucket.refill_rate b \<noteq> 0"
    and "Q3_TokenBucketRateLimiter.buckets limiter cid = Some b
         \<or> (Q3_TokenBucketRateLimiter.buckets limiter cid = None
            \<and> b = Q3_TokenBucket_init (Q3_TokenBucketRateLimiter.capacity limiter)
                    (Q3_TokenBucketRateLimiter.refill_rate limiter) now0)"
  shows "fst (Q3_TokenBucket_consume b now1 n) = False
       \<and> Q3_TokenBucketRateLimiter_allow_request limiter cid n now0 now1 now2 =
           (Inr (False,
                 Some ((real_of_int n
                          - Q3_TokenBucket.tokens
                              (Q3_TokenBucket_refill (Q3_TokenBucket_refill b now1) now2))
                       / Q3_TokenBucket.refill_rate b)),
            limiter\<lparr>Q3_TokenBucketRateLimiter.buckets :=
              (Q3_TokenBucketRateLimiter.buckets limiter)
                (cid \<mapsto> Q3_TokenBucket_refill (Q3_TokenBucket_refill b now1) now2)\<rparr>)"
proof
  show "fst (Q3_TokenBucket_consume b now1 n) = False"
    using assms(1) by (simp add: Q3_TokenBucket_consume_over_capacity)
next
  let ?b1 = "Q3_TokenBucket_refill b now1"
  have c: "Q3_TokenBucket_consume b now1 n = (False, ?b1)"
    using assms(1) by (rule Q3_TokenBucket_consume_over_capacity)
  have "Q3_TokenBucket.capacity ?b1 < n" "Q3_TokenBucket.refill_rate ?b1 \<noteq> 0"
    using assms(1,2) by (simp_all add: Q3_TokenBucket_refill_config)
  then have w: "Q3_TokenBucket_wait_time_for_tokens ?b1 now2 n =
           (Inr ((real_of_int n - Q3_TokenBucket.tokens (Q3_TokenBucket_refill ?b1 now2))
                   / Q3_TokenBucket.refill_rate b),
            Q3_TokenBucket_refill ?b1 now2)"
    by (simp add: Q3_TokenBucket_wait_time_over_capacity Q3_TokenBucket_refill_config)
  from assms(3) show "Q3_TokenBucketRateLimiter_allow_request limiter cid n now0 now1 now2 =
           (Inr (False,
                 Some ((real_of_int n
                          - Q3_TokenBucket.tokens (Q3_TokenBucket_refill ?b1 now2))
                       / Q3_TokenBucket.refill_rate b)),
            limiter\<lparr>Q3_TokenBucketRateLimiter.buckets :=
              (Q3_TokenBucketRateLimiter.buckets limiter)
                (cid \<mapsto> Q3_TokenBucket_refill ?b1 now2)\<rparr>)"
  proof
    assume "Q3_TokenBucketRateLimiter.buckets limiter cid = Some b"
    then show ?thesis
      by (simp add: Q3_TokenBucketRateLimiter_allow_request_def c w)
  next
    assume "Q3_TokenBucketRateLimiter.buckets limiter cid = None
            \<and> b = Q3_TokenBucket_init (Q3_TokenBucketRateLimiter.capacity limiter)
                    (Q3_TokenBucketRateLimiter.refill_rate limiter) now0"
    then show ?thesis using c w
      by (simp add: Q3_TokenBucketRateLimiter_allow_request_def Let_def)
  qed
qed

text \<open>
  An instance: a stored bucket of capacity 5 and rate 2 holding 3 tokens is asked for 6
  while the clock stands still; the answer is a denial with a retry-after of 1.5 seconds.
\<close>

theorem cost_over_capacity_witness:
  "fst (Q3_TokenBucket_consume
          \<lparr>Q3_TokenBucket.capacity = 5, refill_rate = 2, tokens = 3, last_refill_time = 7\<rparr> 7 6)
     = False
   \<and> fst (Q3_TokenBucketRateLimiter_allow_request
          \<lparr>Q3_TokenBucketRateLimiter.capacity = 5, refill_rate = 2,
            buckets = [''alice'' \<mapsto>
              \<lparr>Q3_TokenBucket.capacity = 5, refill_rate = 2, tokens = 3, last_refill_time = 7\<rparr>]\<rparr>
          ''alice'' 6 7 7 7)
     = Inr (False, Some (3/2))"
proof -
  let ?b = "\<lparr>Q3_TokenBucket.capacity = 5, refill_rate = 2, tokens = 3, last_refill_time = 7\<rparr>"
  let ?l = "\<lparr>Q3_TokenBucketRateLimiter.capacity = 5, refill_rate = 2,
             buckets = [''alice'' \<mapsto> ?b]\<rparr>"
  have h1: "Q3_TokenBucket.capacity ?b < 6" by simp
  have h2: "Q3_TokenBucket.refill_rate ?b \<noteq> 0" by simp
  have h3: "Q3_TokenBucketRateLimiter.buckets ?l ''alice'' = Some ?b
         \<or> (Q3_TokenBucketRateLimiter.buckets ?l ''alice'' = None
            \<and> ?b = Q3_TokenBucket_init (Q3_TokenBucketRateLimiter.capacity ?l)
                    (Q3_TokenBucketRateLimiter.refill_rate ?l) 7)"
    by simp
  from cost_over_capacity [OF h1 h2 h3, of 7 7] show ?thesis
    by (simp add: Q3_TokenBucket_refill_def Let_def)
qed

text \<open>
  C4, as stated, fails: a request of cost 100 to a fresh limiter of capacity 10 and rate
  2 is answered with the finite retry-after of 45 seconds; the result type has no value
  that marks the denial as permanent.
\<close>

theorem cost_over_capacity_counterexample:
  "fst (Q3_TokenBucketRateLimiter_allow_request (Q3_TokenBucketRateLimiter_init 10 2)
          ''client'' 100 0 0 0) = Inr (False, Some 45)"
  by (simp add: Q3_TokenBucketRateLimiter_allow_request_def Q3_TokenBucket_consume_def
      Q3_TokenBucket_refill_def Q3_TokenBucket_wait_time_for_tokens_def py_div_def Let_def
      Q3_TokenBucketRateLimiter_init_def Q3_TokenBucket_init_def)


section \<open>The wait time of the leaky bucket\<close>

text \<open>
  C5, as the code behaves. After the leak for the elapsed time, with \<open>q\<close> the queue left:
  \<^item> \<^verbatim>\<open>src/API Project/question3_rate_limiting/leaky_bucket.py\<close> (capacity and rate
    positive, as its constructor checks) returns 0 when \<open>len(q) < capacity\<close> and
    \<open>len(q) / leak_rate\<close> otherwise;
  \<^item> \<^verbatim>\<open>src/rate_limiting/leaky_bucket.py\<close> returns 0 only when \<open>q\<close> is empty and
    \<open>len(q) / leak_rate\<close> otherwise, also below the capacity;
  \<^item> Question 3 returns 0 when \<open>len(q) < capacity\<close> and \<open>1 / leak_rate\<close> otherwise.
\<close>

theorem get_wait_time_variants:
  assumes "0 < AP_LeakyBucket.capacity a" and "0 < AP_LeakyBucket.leak_rate a"
    and "LeakyBucket.leak_rate b \<noteq> 0"
    and "Q3_LeakyBucket.leak_rate c \<noteq> 0"
  shows "fst (AP_LeakyBucket_get_wait_time a now) =
           (let q = AP_LeakyBucket.queue (AP_LeakyBucket_leak_requests a now)
            in if int (length q) < AP_LeakyBucket.capacity a then Inr 0
               else Inr (real (length q) / AP_LeakyBucket.leak_rate a))
       \<and> fst (LeakyBucket_get_wait_time b now) =
           (let q = LeakyBucket.bucket (LeakyBucket_leak_requests b now)
            in if length q = 0 then Inr 0
               else Inr (real (length q) / LeakyBucket.leak_rate b))
       \<and> fst (Q3_LeakyBucket_get_wait_time c now) =
           (let q = Q3_LeakyBucket.queue (Q3_LeakyBucket_leak c now)
            in if int (length q) < Q3_LeakyBucket.capacity c then Inr 0
               else Inr (1 / Q3_LeakyBucket.leak_rate c))"
proof (intro conjI)
  show "fst (AP_LeakyBucket_get_wait_time a now) =
           (let q = AP_LeakyBucket.queue (AP_LeakyBucket_leak_requests a now)
            in if int (length q) < AP_LeakyBucket.capacity a then Inr 0
               else Inr (real (length q) / AP_LeakyBucket.leak_rate a))"
    using assms(1,2) by (rule AP_LeakyBucket_get_wait_time_eq)
next
  show "fst (LeakyBucket_get_wait_time b now) =
           (let q = LeakyBucket.bucket (LeakyBucket_leak_requests b now)
            in if length q = 0 then Inr 0
               else Inr (real (length q) / LeakyBucket.leak_rate b))"
    using assms(3)
    by (simp add: LeakyBucket_get_wait_time_def Let_def py_div_def LeakyBucket_leak_requests_config)
next
  show "fst (Q3_LeakyBucket_get_wait_time c now) =
           (let q = Q3_LeakyBucket.queue (Q3_LeakyBucket_leak c now)
            in if int (length q) < Q3_LeakyBucket.capacity c then Inr 0
               else Inr (1 / Q3_LeakyBucket.leak_rate c))"
    using assms(4)
    by (simp add: Q3_LeakyBucket_get_wait_time_def Let_def py_div_def Q3_LeakyBucket_leak_config)
qed

text \<open>
  An instance: three full buckets of capacity 2 and rate 4, queried an eighth of a
  second after their last leak, before any entry has leaked.
\<close>

theorem get_wait_time_variants_witness:
  "fst (AP_LeakyBucket_get_wait_time
          \<lparr>AP_LeakyBucket.capacity = 2, leak_rate = 4, queue = [0, 0], last_leak = 0\<rparr> (1/8))
     = Inr (1/2)
   \<and> fst (LeakyBucket_get_wait_time
          \<lparr>LeakyBucket.capacity = 2, leak_rate = 4, bucket = [0, 0], last_leak = 0\<rparr> (1/8))
     = Inr (1/2)
   \<and> fst (Q3_LeakyBucket_get_wait_time
          \<lparr>Q3_LeakyBucket.capacity = 2, leak_rate = 4,
            queue = [\<lparr>id_key = Given ''a'', timestamp = 0\<rparr>, \<lparr>id_key = Generated 0, timestamp = 0\<rparr>],
            last_leak_time = 0\<rparr> (1/8))
     = Inr (1/4)"
proof -
  let ?a = "\<lparr>AP_LeakyBucket.capacity = 2, leak_rate = 4, queue = [0, 0], last_leak = 0\<rparr>"
  let ?b = "\<lparr>LeakyBucket.capacity = 2, leak_rate = 4, bucket = [0, 0], last_leak = 0\<rparr>"
  let ?c = "\<lparr>Q3_LeakyBucket.capacity = 2, leak_rate = 4,
            queue = [\<lparr>id_key = Given ''a'', timestamp = 0\<rparr>, \<lparr>id_key = Generated 0, timestamp = 0\<rparr>],
            last_leak_time = 0\<rparr>"
  have h1: "0 < AP_LeakyBucket.capacity ?a" by simp
  have h2: "0 < AP_LeakyBucket.leak_rate ?a" by simp
  have h3: "LeakyBucket.leak_rate ?b \<noteq> 0" by simp
  have h4: "Q3_LeakyBucket.leak_rate ?c \<noteq> 0" by simp
  from get_wait_time_variants [OF h1 h2 h3 h4, of "1/8"] show ?thesis
    by (simp add: AP_LeakyBucket_leak_requests_def LeakyBucket_leak_requests_def
        Q3_LeakyBucket_leak_def py_int_def Let_def)
qed

text \<open>
  C5, as stated, fails in two of the three files. In \<^verbatim>\<open>src/rate_limiting\<close> a bucket of
  capacity 5 holding one entry is not full, yet the wait time is 0.5 seconds, not 0. In
  Question 3 a full bucket of capacity 2 and rate 4 gives 0.25 seconds, not 2/4.
\<close>

theorem get_wait_time_counterexample:
  "int (length (LeakyBucket.bucket (LeakyBucket_leak_requests
          \<lparr>LeakyBucket.capacity = 5, leak_rate = 2, bucket = [0], last_leak = 0\<rparr> 0))) < 5
   \<and> fst (LeakyBucket_get_wait_time
          \<lparr>LeakyBucket.capacity = 5, leak_rate = 2, bucket = [0], last_leak = 0\<rparr> 0) = Inr (1/2)
   \<and> int (length (Q3_LeakyBucket.queue (Q3_LeakyBucket_leak
          \<lparr>Q3_LeakyBucket.capacity = 2, leak_rate = 4,
            queue = [\<lparr>id_key = Given ''a'', timestamp = 0\<rparr>, \<lparr>id_key = Given ''b'', timestamp = 0\<rparr>],
            last_leak_time = 0\<rparr> 0))) = 2
   \<and> fst (Q3_LeakyBucket_get_wait_time
          \<lparr>Q3_LeakyBucket.capacity = 2, leak_rate = 4,
            queue = [\<lparr>id_key = Given ''a'', timestamp = 0\<rparr>, \<lparr>id_key = Given ''b'', timestamp = 0\<rparr>],
            last_leak_time = 0\<rparr> 0) = Inr (1/4)"
  by (simp add: LeakyBucket_get_wait_time_def LeakyBucket_leak_requests_def
      Q3_LeakyBucket_get_wait_time_def Q3_LeakyBucket_leak_def py_int_def py_div_def Let_def)


section \<open>A clock that runs backwards\<close>

text \<open>
  C6 fails in Question 3, whose \<open>_refill\<close> has no guard on the elapsed time. A bucket of
  capacity 10 and rate 2 is created at time 100 and gives out 9 tokens at once; the next
  reading of the clock is 99. \<open>get_available_tokens\<close> then applies an elapsed time of -1:
  it reports a level of -1 and moves \<open>last_refill_time\<close> back to 99. (The refill of
  \<^verbatim>\<open>src/rate_limiting/token_bucket.py\<close> leaves the bucket unchanged on such a reading, by
  \<open>TokenBucket_refill_tokens_clock_regression\<close>.)
\<close>

theorem Q3_refill_applies_negative_elapsed:
  "Q3_TokenBucket_consume (Q3_TokenBucket_init 10 2 100) 100 9
     = (True, \<lparr>Q3_TokenBucket.capacity = 10, refill_rate = 2, tokens = 1, last_refill_time = 100\<rparr>)
   \<and> Q3_TokenBucket_get_available_tokens
       \<lparr>Q3_TokenBucket.capacity = 10, refill_rate = 2, tokens = 1, last_refill_time = 100\<rparr> 99
     = (-1, \<lparr>Q3_TokenBucket.capacity = 10, refill_rate = 2, tokens = -1, last_refill_time = 99\<rparr>)"
  by (simp add: Q3_TokenBucket_consume_def Q3_TokenBucket_get_available_tokens_def
      Q3_TokenBucket_refill_def Q3_TokenBucket_init_def Let_def)


section \<open>Construction with an invalid configuration\<close>

text \<open>
  C7 fails in Question 3, whose \<open>TokenBucket.__init__\<close> checks nothing: a capacity of 0
  and a rate of -2 produce a bucket. (The constructors of \<^verbatim>\<open>src/rate_limiting\<close> and of
  \<^verbatim>\<open>src/API Project\<close> raise \<open>ValueError\<close>, by \<open>TokenBucket_init_invalid\<close>,
  \<open>LeakyBucket_init_invalid\<close> and \<open>AP_LeakyBucket_init_invalid\<close>.)
\<close>

theorem Q3_init_accepts_invalid_configuration:
  "Q3_TokenBucket_init 0 (-2) t
     = \<lparr>Q3_TokenBucket.capacity = 0, refill_rate = -2, tokens = 0, last_refill_time = t\<rparr>"
  by (simp add: Q3_TokenBucket_init_def)


section \<open>Isolation of clients\<close>

text \<open>
  C8. In both multi-client limiters of Question 3, a call of \<open>allow_request\<close> for client
  \<open>a\<close>, whatever its outcome and clock readings, leaves the entry of every other client
  \<open>b\<close> as it was: the same bucket (level or queue, and timestamp), or still none.
\<close>

theorem client_isolation:
  assumes "a \<noteq> b"
  shows "Q3_TokenBucketRateLimiter.buckets
           (snd (Q3_TokenBucketRateLimiter_allow_request tlim a n now0 now1 now2)) b
         = Q3_TokenBucketRateLimiter.buckets tlim b
       \<and> Q3_LeakyBucketRateLimiter.buckets
           (snd (Q3_LeakyBucketRateLimiter_allow_request llim a rid t0 t1 t2 t3 t4)) b
         = Q3_LeakyBucketRateLimiter.buckets llim b"
  using assms
  by (auto simp: Q3_TokenBucketRateLimiter_allow_request_def
      Q3_LeakyBucketRateLimiter_allow_request_def Let_def
      split: option.splits prod.splits bool.splits)

text \<open>
  An instance: client \<open>A\<close> has no token left and a full queue and is denied; the
  buckets of client \<open>B\<close> are the same after the two calls.
\<close>

theorem client_isolation_witness:
  "fst (Q3_TokenBucketRateLimiter_allow_request
          \<lparr>Q3_TokenBucketRateLimiter.capacity = 2, refill_rate = 1,
            buckets = [''A'' \<mapsto> \<lparr>Q3_TokenBucket.capacity = 2, refill_rate = 1, tokens = 0,
                                 last_refill_time = 0\<rparr>,
                       ''B'' \<mapsto> \<lparr>Q3_TokenBucket.capacity = 2, refill_rate = 1, tokens = 2,
                                 last_refill_time = 0\<rparr>]\<rparr>
          ''A'' 1 0 0 0) = Inr (False, Some 1)
   \<and> Q3_TokenBucketRateLimiter.buckets
       (snd (Q3_TokenBucketRateLimiter_allow_request
          \<lparr>Q3_TokenBucketRateLimiter.capacity = 2, refill_rate = 1,
            buckets = [''A'' \<mapsto> \<lparr>Q3_TokenBucket.capacity = 2, refill_rate = 1, tokens = 0,
                                 last_refill_time = 0\<rparr>,
                       ''B'' \<mapsto> \<lparr>Q3_TokenBucket.capacity = 2, refill_rate = 1, tokens = 2,
                                 last_refill_time = 0\<rparr>]\<rparr>
          ''A'' 1 0 0 0)) ''B''
     = Some \<lparr>Q3_TokenBucket.capacity = 2, refill_rate = 1, tokens = 2, last_refill_time = 0\<rparr>
   \<and> Q3_LeakyBucketRateLimiter.buckets
       (snd (Q3_LeakyBucketRateLimiter_allow_request
          \<lparr>Q3_LeakyBucketRateLimiter.capacity = 1, leak_rate = 1,
            buckets = [''A'' \<mapsto> \<lparr>Q3_LeakyBucket.capacity = 1, leak_rate = 1,
                                 queue = [\<lparr>id_key = Given ''r1'', timestamp = 0\<rparr>],
                                 last_leak_time = 0\<rparr>,
                       ''B'' \<mapsto> \<lparr>Q3_LeakyBucket.capacity = 1, leak_rate = 1, queue = [],
                                 last_leak_time = 0\<rparr>]\<rparr>
          ''A'' (Some ''r2'') 0 0 0 0 0)) ''B''
     = Some \<lparr>Q3_LeakyBucket.capacity = 1, leak_rate = 1, queue = [], last_leak_time = 0\<rparr>"
proof -
  have h: "''A'' \<noteq> ''B''" by simp
  from client_isolation [OF h] show ?thesis
    by (simp add: Q3_TokenBucketRateLimiter_allow_request_def Q3_TokenBucket_consume_def
        Q3_TokenBucket_refill_def Q3_TokenBucket_wait_time_for_tokens_def py_div_def Let_def)
qed


section \<open>Information about an unseen client\<close>

text \<open>
  C10. For a client identifier with no entry in \<open>buckets\<close>, \<open>get_client_info\<close> of both
  Question 3 limiters returns the view of an unused bucket (\<open>tokens_available\<close> equal to
  the capacity; \<open>queue_size\<close> 0 and \<open>is_full\<close> false) and returns the limiter unchanged: no
  entry is created.
\<close>

theorem get_client_info_unseen:
  assumes "Q3_TokenBucketRateLimiter.buckets tlim cid = None"
    and "Q3_LeakyBucketRateLimiter.buckets llim cid' = None"
  shows "Q3_TokenBucketRateLimiter_get_client_info tlim cid now =
           (\<lparr>Q3_TokenClientInfo.client_id = cid,
             tokens_available = real_of_int (Q3_TokenBucketRateLimiter.capacity tlim),
             capacity = Q3_TokenBucketRateLimiter.capacity tlim,
             refill_rate = Q3_TokenBucketRateLimiter.refill_rate tlim\<rparr>, tlim)
       \<and> Q3_LeakyBucketRateLimiter_get_client_info llim cid' now1 now2 =
           (\<lparr>Q3_LeakyClientInfo.client_id = cid', queue_size = 0,
             capacity = Q3_LeakyBucketRateLimiter.capacity llim,
             leak_rate = Q3_LeakyBucketRateLimiter.leak_rate llim,
             is_full = False\<rparr>, llim)"
  using assms
  by (simp add: Q3_TokenBucketRateLimiter_get_client_info_def
      Q3_LeakyBucketRateLimiter_get_client_info_def)

text \<open>An instance: two freshly constructed limiters of capacity 10 and rate 2.\<close>

theorem get_client_info_unseen_witness:
  "Q3_TokenBucketRateLimiter_get_client_info (Q3_TokenBucketRateLimiter_init 10 2) ''user_123'' 0 =
     (\<lparr>Q3_TokenClientInfo.client_id = ''user_123'', tokens_available = 10, capacity = 10,
       refill_rate = 2\<rparr>,
      Q3_TokenBucketRateLimiter_init 10 2)
   \<and> Q3_LeakyBucketRateLimiter_get_client_info (Q3_LeakyBucketRateLimiter_init 10 2)
       ''user_123'' 0 0 =
     (\<lparr>Q3_LeakyClientInfo.client_id = ''user_123'', queue_size = 0, capacity = 10,
       leak_rate = 2, is_full = False\<rparr>,
      Q3_LeakyBucketRateLimiter_init 10 2)"
proof -
  have h1: "Q3_TokenBucketRateLimiter.buckets (Q3_TokenBucketRateLimiter_init 10 2) ''user_123''
              = None"
    by (simp add: Q3_TokenBucketRateLimiter_init_def)
  have h2: "Q3_LeakyBucketRateLimiter.buckets (Q3_LeakyBucketRateLimiter_init 10 2) ''user_123''
              = None"
    by (simp add: Q3_LeakyBucketRateLimiter_init_def)
  from get_client_info_unseen [OF h1 h2, of 0 0 0] show ?thesis
    by (simp add: Q3_TokenBucketRateLimiter_init_def Q3_LeakyBucketRateLimiter_init_def)
qed

end
